theory Spec2Isabelle
  imports Complex_Main "HOL-Library.Multiset"
begin

section \<open>Shared data model\<close>

text \<open>
  Exceptions of the Python source are values: every function that can raise returns
  \<open>py_error + 'a\<close>, with \<open>Inl\<close> carrying the exception.
\<close>

datatype py_error =
    ValueError
  | KeyError
  | IndexError
  | NotImplementedError
  | UnboundLocalError

text \<open>\<open>erc/constants.py\<close>: the run mode enumeration.\<close>

datatype RunMode = TRAIN | VALID | TEST

text \<open>
  \<open>erc/constants.py\<close>, \<open>emotion2idx\<close>: a dict literal, kept as the list of its items in
  source order (the order of \<open>dict.keys()\<close>) together with the lookup function.
\<close>

definition emotion2idx_items :: "(string \<times> int) list" where
  "emotion2idx_items =
     [(''surprise'', 0), (''fear'', 1), (''angry'', 2), (''neutral'', 3),
      (''happy'', 4), (''sad'', 5), (''disgust'', 6)]"

definition emotion2idx :: "string \<rightharpoonup> int" where
  "emotion2idx = map_of emotion2idx_items"

text \<open>\<open>dict.get(key, default)\<close>.\<close>

definition dict_get :: "('k \<rightharpoonup> 'v) \<Rightarrow> 'k \<Rightarrow> 'v \<Rightarrow> 'v" where
  "dict_get d key dflt = (case d key of None \<Rightarrow> dflt | Some v \<Rightarrow> v)"

section \<open>Label resolution: \<open>str2num\<close>\<close>

text \<open>
  \<open>KEMDBase.str2num\<close>: \<open>emotion2idx.get(key, -1)\<close>, wrapped in a long tensor (the
  values are between -1 and 6, far inside 64 bits, so the tensor is its integer).
\<close>

definition str2num :: "string \<Rightarrow> int" where
  "str2num key = dict_get emotion2idx key (- 1)"

section \<open>Padding: \<open>pad_value\<close> and \<open>get_wav\<close>\<close>

text \<open>
  \<open>mask[k:] = 0\<close> on a one-dimensional tensor, for \<open>0 \<le> k\<close>: the entries from
  position \<open>k\<close> on become 0, the length stays.
\<close>

definition assign_from :: "nat \<Rightarrow> int list \<Rightarrow> int list" where
  "assign_from k msk = take k msk @ replicate (length msk - k) 0"

text \<open>
  \<open>KEMDBase.pad_value\<close> on a one-dimensional array (``assumes single data''), with a
  maximum length that is a natural number. It returns the pair \<open>(arr, mask)\<close>.
\<close>

definition pad_value :: "'a list \<Rightarrow> nat \<Rightarrow> 'a \<Rightarrow> 'a list \<times> int list" where
  "pad_value arr max_length pad =
     (let msk = replicate max_length (1::int) in
      if length arr \<ge> max_length then (take max_length arr, msk)
      else
        (let null_size = max_length - length arr in
         (arr @ replicate null_size pad, assign_from null_size msk)))"

text \<open>
  \<open>KEMDBase.get_wav\<close> after the file has been loaded: \<open>loaded\<close> is what
  \<open>torchaudio.load\<close> returned, squeezed to one dimension, with its sampling rate.
  \<open>max_length_wav\<close> is \<open>None\<close> or an integer; \<open>None\<close> and 0 are falsy.
\<close>

definition get_wav ::
  "nat option \<Rightarrow> real list \<times> nat \<Rightarrow> nat \<times> real list \<times> int list option" where
  "get_wav max_length_wav loaded =
     (case loaded of (data, sampling_rate) \<Rightarrow>
        (case max_length_wav of
           None \<Rightarrow> (sampling_rate, data, None)
         | Some n \<Rightarrow>
             if n \<noteq> 0 then
               (case pad_value data n 0 of (d, msk) \<Rightarrow> (sampling_rate, d, Some msk))
             else (sampling_rate, data, None)))"

section \<open>The multilabel columns and the prefix count of \<open>KEMDBase.__init__\<close>\<close>

text \<open>\<open>list.remove(x)\<close>: drops the first occurrence, raises \<open>ValueError\<close> when there is none.\<close>

fun list_remove :: "'a \<Rightarrow> 'a list \<Rightarrow> py_error + 'a list" where
  "list_remove x [] = Inl ValueError"
| "list_remove x (y # ys) =
     (if y = x then Inr ys
      else (case list_remove x ys of Inl e \<Rightarrow> Inl e | Inr zs \<Rightarrow> Inr (y # zs)))"

text \<open>\<open>self.emo_col\<close> is a list of column names in multilabel mode, one name otherwise.\<close>

datatype emo_col = Columns "string list" | Column string

text \<open>
  Lines 84 to 86 of \<open>KEMDBase.__init__\<close>, with the vocabulary's items as a parameter:
  \<^verbatim>\<open>emo_col = list(emotion2idx.keys()); emo_col.remove("disqust")\<close>, then
  \<^verbatim>\<open>self.emo_col = emo_col if multilabel else "emotion"\<close>. The removal runs in both modes.
\<close>

definition init_emo_col :: "(string \<times> int) list \<Rightarrow> bool \<Rightarrow> py_error + emo_col" where
  "init_emo_col items multilabel =
     (case list_remove ''disqust'' (map fst items) of
        Inl e \<Rightarrow> Inl e
      | Inr cols \<Rightarrow> Inr (if multilabel then Columns cols else Column ''emotion''))"

text \<open>
  Python's \<open>round\<close> on a number: to the nearest integer, a tie to the even one. The float
  product \<open>0.05 * len(self.df)\<close> is taken as the exact product.
\<close>

definition py_round :: "real \<Rightarrow> int" where
  "py_round x =
     (let f = \<lfloor>x\<rfloor>; d = x - of_int f in
      if d < 1 / 2 then f else if 1 / 2 < d then f + 1
      else if even f then f else f + 1)"

text \<open>
  Lines 95 to 102 of \<open>KEMDBase.__init__\<close>: the value stored in \<open>self.num_data\<close>, from the
  argument \<open>num_data\<close> (\<open>None\<close> when it is not an integer) and the partition \<open>self.df\<close>.
\<close>

definition init_num_data :: "int option \<Rightarrow> 'r list \<Rightarrow> int option" where
  "init_num_data num_data df =
     (case num_data of
        None \<Rightarrow> None
      | Some k \<Rightarrow>
          if 0 \<le> k \<and> k < int (length df) then Some k
          else Some (py_round (0.05 * real (length df))))"

text \<open>The slice \<open>xs[:k]\<close>; a negative \<open>k\<close> counts from the end.\<close>

definition slice_to :: "int \<Rightarrow> 'r list \<Rightarrow> 'r list" where
  "slice_to k xs = (if 0 \<le> k then take (nat k) xs else take (length xs - nat (- k)) xs)"

text \<open>
  \<open>KEMDBase.__len__\<close>: \<^verbatim>\<open>len(self.df) if not self.num_data else len(self.df[:self.num_data])\<close>.
  \<open>not self.num_data\<close> holds for \<open>None\<close> and for 0.
\<close>

definition dataset_len :: "'r list \<Rightarrow> int option \<Rightarrow> nat" where
  "dataset_len df num_data =
     (case num_data of
        None \<Rightarrow> length df
      | Some k \<Rightarrow> if k = 0 then length df else length (slice_to k df))"

section \<open>Multilabel vector: \<open>vectorize\<close>\<close>




section \<open>Python strings\<close>

text \<open>
  A string is a list of characters, a character a code point below 256. \<open>is_space\<close> is
  \<open>str.isspace\<close> on these code points, \<open>is_digit\<close> the decimal digits among them.
\<close>

definition is_space :: "char \<Rightarrow> bool" where
  "is_space c = ((of_char c :: nat) \<in> {9, 10, 11, 12, 13, 28, 29, 30, 31, 32, 133, 160})"

definition is_digit :: "char \<Rightarrow> bool" where
  "is_digit c = (48 \<le> (of_char c :: nat) \<and> (of_char c :: nat) \<le> 57)"

definition py_strip :: "string \<Rightarrow> string" where
  "py_strip s = rev (dropWhile is_space (rev (dropWhile is_space s)))"

fun no_double_underscore :: "string \<Rightarrow> bool" where
  "no_double_underscore (a # b # cs) =
     (\<not> (a = CHR ''_'' \<and> b = CHR ''_'') \<and> no_double_underscore (b # cs))"
| "no_double_underscore cs = True"

text \<open>
  The digits of a decimal integer literal: not empty, digits with single underscores
  between them.
\<close>

definition int_literal_body :: "string \<Rightarrow> bool" where
  "int_literal_body b =
     (b \<noteq> [] \<and> list_all (\<lambda>c. is_digit c \<or> c = CHR ''_'') b \<and>
      is_digit (hd b) \<and> is_digit (last b) \<and> no_double_underscore b)"

definition digits_value :: "string \<Rightarrow> int" where
  "digits_value ds = foldl (\<lambda>acc c. 10 * acc + (int (of_char c) - 48)) 0 ds"

text \<open>
  \<open>int(s)\<close> on a string, base 10: surrounding whitespace is dropped, one sign is allowed,
  anything else raises \<open>ValueError\<close>.
\<close>

definition py_int :: "string \<Rightarrow> py_error + int" where
  "py_int s =
     (let t = py_strip s;
          neg = (t \<noteq> [] \<and> hd t = CHR ''-'');
          body = (if t \<noteq> [] \<and> (hd t = CHR ''-'' \<or> hd t = CHR ''+'') then tl t else t)
      in if int_literal_body body
         then Inr ((if neg then - 1 else 1) * digits_value (filter is_digit body))
         else Inl ValueError)"

text \<open>\<open>s.split(sep)\<close> with a one-character separator: never empty, empty fields kept.\<close>

fun py_split :: "char \<Rightarrow> string \<Rightarrow> string list" where
  "py_split sep [] = [[]]"
| "py_split sep (c # cs) =
     (if c = sep then [] # py_split sep cs
      else (case py_split sep cs of [] \<Rightarrow> [[c]] | w # ws \<Rightarrow> (c # w) # ws))"

text \<open>The slice \<open>s[-2:]\<close>: the last two characters, or all of a shorter string.\<close>

definition last_two :: "string \<Rightarrow> string" where
  "last_two s = drop (length s - 2) s"

section \<open>Fold partitioning: \<open>get_folds\<close> and \<open>split_folds\<close>\<close>

text \<open>A row of the normalized table, with its canonical columns.\<close>

record row =
  segment_id :: string
  emotion :: string
  valence :: real
  arousal :: real

text \<open>The \<open>mode\<close> argument is a \<open>RunMode\<close> or a string.\<close>

datatype mode_arg = ModeEnum RunMode | ModeStr string

text \<open>
  The session number of a row, as \<open>split_folds\<close> computes it:
  \<^verbatim>\<open>int(s.split("_")[0][-2:])\<close>.
\<close>

definition session_of :: "string \<Rightarrow> py_error + int" where
  "session_of s = py_int (last_two (hd (py_split CHR ''_'' s)))"

text \<open>\<open>Series.apply(f)\<close>: \<open>f\<close> on every entry in order; the first exception ends it.\<close>

fun series_apply :: "('a \<Rightarrow> py_error + 'b) \<Rightarrow> 'a list \<Rightarrow> py_error + 'b list" where
  "series_apply f [] = Inr []"
| "series_apply f (x # xs) =
     (case f x of
        Inl e \<Rightarrow> Inl e
      | Inr y \<Rightarrow> (case series_apply f xs of Inl e \<Rightarrow> Inl e | Inr ys \<Rightarrow> Inr (y # ys)))"

text \<open>
  \<open>KEMDBase.split_folds\<close>. \<open>get_folds\<close> is imported from \<open>erc.preprocess\<close>; here it is
  the parameter \<open>folds_fn\<close>, called with the class attributes \<open>NUM_SESSIONS\<close> and
  \<open>NUM_FOLDS\<close>. A session range is the list of its sessions. \<open>total_df.loc[loc]\<close> keeps
  the rows whose entry of the boolean series \<open>loc\<close> is true.
\<close>

definition split_folds ::
  "(nat \<Rightarrow> nat \<Rightarrow> (int \<rightharpoonup> int list)) \<Rightarrow> nat \<Rightarrow> nat \<Rightarrow>
   row list \<Rightarrow> int \<Rightarrow> mode_arg \<Rightarrow> py_error + row list" where
  "split_folds folds_fn NUM_SESSIONS NUM_FOLDS total_df fold_num mode =
     (if fold_num = - 1 then Inr total_df
      else
        (case series_apply session_of (map segment_id total_df) of
           Inl e \<Rightarrow> Inl e
         | Inr sessions \<Rightarrow>
             (case folds_fn NUM_SESSIONS NUM_FOLDS fold_num of
                None \<Rightarrow> Inl KeyError
              | Some fold_range \<Rightarrow>
                  (let isin = map (\<lambda>s. s \<in> set fold_range) sessions;
                       loc = (if mode = ModeEnum TRAIN then map Not isin else isin)
                   in Inr (map fst (filter snd (zip total_df loc)))))))"

text \<open>
  Modelled from the spec: \<open>get_folds\<close> of \<open>erc/preprocess.py\<close>, which is not among the
  sources. The spec: ``\<open>get_folds(num_sessions, num_folds) -> mapping[fold_id ->
  session_range]\<close>. Splits total session count into \<open>num_folds\<close> contiguous,
  equal-as-possible ranges ordered by session number (fold 0 = sessions
  1..num_sessions/num_folds, etc.)''. Fold \<open>f\<close> gets the sessions after the first
  \<open>f * num_sessions div num_folds\<close> up to the first \<open>(f + 1) * num_sessions div
  num_folds\<close>.
\<close>

definition get_folds :: "nat \<Rightarrow> nat \<Rightarrow> (int \<rightharpoonup> int list)" where
  "get_folds num_session num_folds =
     (\<lambda>f. if 0 \<le> f \<and> f < int num_folds
          then Some [int (nat f * num_session div num_folds) + 1 ..
                     int ((nat f + 1) * num_session div num_folds)]
          else None)"

section \<open>Theorems\<close>

text \<open>
  C8. For every string that is not a key of the emotion vocabulary \<open>str2num\<close> returns
  the sentinel -1, and for every key it returns the index the vocabulary gives the key.
  The function is total: no input makes it raise.
\<close>

theorem str2num_sentinel:
  "(key \<notin> dom emotion2idx \<longrightarrow> str2num key = - 1) \<and>
   (\<forall>i. emotion2idx key = Some i \<longrightarrow> str2num key = i)"
  by (auto simp: str2num_def dict_get_def split: option.splits)

theorem str2num_sentinel_witness:
  "''bogus'' \<notin> dom emotion2idx \<and> str2num ''bogus'' = - 1 \<and>
   emotion2idx ''happy'' = Some 4 \<and> str2num ''happy'' = 4"
proof -
  have a: "''bogus'' \<notin> dom emotion2idx"
    by (simp add: emotion2idx_def emotion2idx_items_def dom_def)
  have b: "emotion2idx ''happy'' = Some 4"
    by (simp add: emotion2idx_def emotion2idx_items_def)
  from a b str2num_sentinel [of "''bogus''"] str2num_sentinel [of "''happy''"]
  show ?thesis by blast
qed

text \<open>
  C1. The mask of \<open>pad_value\<close> on a short input: one sample padded to length three
  gets the mask \<open>[1, 1, 0]\<close>, which marks a padded position as present; the mask
  that is 1 exactly at the original sample is \<open>[1, 0, 0]\<close>.
\<close>

theorem pad_value_mask_short_input:
  "pad_value [5::real] 3 0 = ([5, 0, 0], [1, 1, 0]) \<and>
   snd (pad_value [5::real] 3 0) \<noteq> [1, 0, 0]"
  by (simp add: pad_value_def assign_from_def numeral_3_eq_3)

text \<open>
  C6. The vocabulary is a bijection between its seven names and the indices 0 to 6.
\<close>

lemma emotion2idx_dom:
  "dom emotion2idx =
     {''surprise'', ''fear'', ''angry'', ''neutral'', ''happy'', ''sad'', ''disgust''}"
  by (auto simp: emotion2idx_def emotion2idx_items_def dom_def split: if_splits)

lemma emotion2idx_bijection:
  "bij_betw (\<lambda>k. the (emotion2idx k)) (dom emotion2idx) {0..6}"
proof -
  have inj: "inj_on (\<lambda>k. the (emotion2idx k)) (dom emotion2idx)"
    unfolding emotion2idx_dom by (simp add: emotion2idx_def emotion2idx_items_def)
  have img: "(\<lambda>k. the (emotion2idx k)) ` dom emotion2idx = {0..6}"
    unfolding emotion2idx_dom
    by (auto simp: emotion2idx_def emotion2idx_items_def)
  show ?thesis unfolding bij_betw_def using inj img by blast
qed

lemma list_remove_length:
  "list_remove x xs = Inr ys \<Longrightarrow> length xs = Suc (length ys)"
  by (induction xs arbitrary: ys) (auto split: if_splits sum.splits)

text \<open>
  Whatever the vocabulary, a column list that \<open>__init__\<close> builds has one column fewer
  than the vocabulary has names.
\<close>

lemma init_emo_col_drops_one:
  "init_emo_col items True = Inr (Columns cols) \<Longrightarrow> Suc (length cols) = length items"
  by (auto simp: init_emo_col_def split: sum.splits dest: list_remove_length)


text \<open>
  C7. With three rows and the prefix count 0, \<open>__init__\<close> stores 0 and \<open>__len__\<close>
  reports 3, the whole partition. With four rows and the out-of-range count 7,
  \<open>__init__\<close> stores the rounded 5 percent, 0, and \<open>__len__\<close> reports 4.
\<close>

theorem dataset_len_zero_prefix:
  "init_num_data (Some 0) [a, b, c] = Some 0 \<and>
   dataset_len [a, b, c] (init_num_data (Some 0) [a, b, c]) = 3 \<and>
   init_num_data (Some 7) [a, b, c, d] = Some 0 \<and>
   dataset_len [a, b, c, d] (init_num_data (Some 7) [a, b, c, d]) = 4"
  by (simp add: init_num_data_def dataset_len_def py_round_def Let_def)

text \<open>The part of the length control the code does keep.\<close>

lemma dataset_len_positive_prefix:
  "0 < k \<Longrightarrow> k < int (length df) \<Longrightarrow>
     dataset_len df (init_num_data (Some k) df) = nat k"
  by (simp add: init_num_data_def dataset_len_def slice_to_def)

lemma dataset_len_no_prefix:
  "dataset_len df (init_num_data None df) = length df"
  by (simp add: init_num_data_def dataset_len_def)



end
